theory Spec2Isabelle
  imports Complex_Main "HOL-Library.Sublist" "HOL-Library.Multiset"
begin

section \<open>The completion gateway (services/ai\_provider.py)\<close>

text \<open>
  Python floats (costs, temperatures, keyword weights, confidences) are modelled by exact
  rationals: the arithmetic of the source is kept operation by operation, the rounding of
  the IEEE operations themselves is outside the model. Wall-clock time is not modelled, so
  the field \<open>response_time_ms\<close> is left out of results and of ledger rows.
\<close>

subsection \<open>Data\<close>

text \<open>
  One entry of \<open>self.providers\<close>. The client object is represented by the environment
  (see \<open>env\<close> below); \<open>models\<close> is the dictionary from persona to model identifier.
\<close>

record provider =
  name :: string
  models :: "string \<rightharpoonup> string"
  cost_per_1k_tokens :: rat
  priority :: int
  max_tokens :: int
  supports_streaming :: bool

record usage =
  prompt_tokens :: int
  completion_tokens :: int
  total_tokens :: int

text \<open>What \<open>_call_provider\<close> returns on success.\<close>

record response_data =
  content :: string
  usage :: usage

text \<open>The dictionary returned by \<open>generate\<close>.\<close>

record completion =
  res_content :: string
  res_provider :: string
  res_model :: string
  res_usage :: usage
  res_cost :: rat

text \<open>One value of \<open>self.provider_stats\<close>.\<close>

record stats =
  successes :: nat
  failures :: nat
  total_cost :: rat

text \<open>A row of the table \<open>AIRequest\<close>, as \<open>_log_request\<close> builds it.\<close>

record ai_request =
  req_user_id :: "string option"
  req_ai_type :: string
  req_provider :: string
  req_model :: string
  req_prompt_tokens :: "int option"
  req_completion_tokens :: "int option"
  req_total_tokens :: "int option"
  req_cost_usd :: "rat option"
  req_success :: bool
  req_error_message :: "string option"

text \<open>An invocation of \<open>_call_provider\<close>: the request as it leaves \<open>generate\<close>.\<close>

record provider_call =
  call_provider_name :: string
  call_model :: string
  call_temperature :: rat
  call_max_tokens :: int

text \<open>
  The mutable world of the manager: the per-provider counters, the rows committed to the
  database, and the trace of provider invocations issued so far.
\<close>

record state =
  provider_stats :: "string \<Rightarrow> stats"
  ledger :: "ai_request list"
  calls :: "provider_call list"

text \<open>
  The environment: the remote completion API behind each client (an error message when the
  call raises), whether a database commit of a row goes through, and the two settings read
  by \<open>generate\<close>.
\<close>

record env =
  client :: "provider \<Rightarrow> string \<Rightarrow> (string \<times> string) list \<Rightarrow> rat \<Rightarrow> int \<Rightarrow> bool
               \<Rightarrow> string + response_data"
  commit :: "ai_request \<Rightarrow> bool"
  AI_TEMPERATURE :: rat
  AI_MAX_TOKENS :: int

text \<open>The exceptions of the model: a raised \<open>Exception(message)\<close>, and the error of a float division by zero.\<close>

datatype error = Exception string | ZeroDivisionError | TypeError

subsection \<open>Operations\<close>

text \<open>Python's \<open>x or d\<close> on an optional number: \<open>None\<close> and zero are both falsy.\<close>

definition or_default :: "('a::zero) option \<Rightarrow> 'a \<Rightarrow> 'a" where
  "or_default x d = (case x of None \<Rightarrow> d | Some v \<Rightarrow> if v = 0 then d else v)"

text \<open>
  \<open>model = provider["models"].get(ai_type)\<close> followed by \<open>if not model: continue\<close>:
  a missing key and an empty string are both skipped.
\<close>

definition get_model :: "provider \<Rightarrow> string \<Rightarrow> string option" where
  "get_model p ai_type =
     (case models p ai_type of
        None \<Rightarrow> None
      | Some m \<Rightarrow> if m = [] then None else Some m)"

definition calculate_cost :: "int \<Rightarrow> rat \<Rightarrow> rat" where
  "calculate_cost total_toks cost_per_1k = (of_int total_toks / 1000) * cost_per_1k"

definition call_provider ::
  "env \<Rightarrow> provider \<Rightarrow> string \<Rightarrow> (string \<times> string) list \<Rightarrow> rat \<Rightarrow> int \<Rightarrow> bool
     \<Rightarrow> string + response_data" where
  "call_provider E p model msgs temp mt stream =
     (if name p = ''groq'' then client E p model msgs temp mt stream
      else if name p = ''together'' then client E p model msgs temp mt stream
      else if name p = ''openrouter'' then client E p model msgs temp mt stream
      else Inl (''Unknown provider: '' @ name p))"

text \<open>\<open>_log_request\<close>: the row is added when the commit goes through; any failure is swallowed.\<close>

definition log_request :: "env \<Rightarrow> ai_request \<Rightarrow> state \<Rightarrow> state" where
  "log_request E r s = (if commit E r then s\<lparr>ledger := ledger s @ [r]\<rparr> else s)"

definition record_call :: "provider_call \<Rightarrow> state \<Rightarrow> state" where
  "record_call c s = s\<lparr>calls := calls s @ [c]\<rparr>"

definition add_success :: "string \<Rightarrow> rat \<Rightarrow> state \<Rightarrow> state" where
  "add_success n cost s =
     s\<lparr>provider_stats := (provider_stats s)
          (n := (provider_stats s n)\<lparr>successes := successes (provider_stats s n) + 1,
                                      total_cost := total_cost (provider_stats s n) + cost\<rparr>)\<rparr>"

definition add_failure :: "string \<Rightarrow> state \<Rightarrow> state" where
  "add_failure n s =
     s\<lparr>provider_stats := (provider_stats s)
          (n := (provider_stats s n)\<lparr>failures := failures (provider_stats s n) + 1\<rparr>)\<rparr>"

definition success_row :: "string option \<Rightarrow> string \<Rightarrow> provider \<Rightarrow> string \<Rightarrow> usage \<Rightarrow> rat \<Rightarrow> ai_request" where
  "success_row user_id ai_type p model u cost =
     \<lparr>req_user_id = user_id, req_ai_type = ai_type, req_provider = name p, req_model = model,
      req_prompt_tokens = Some (prompt_tokens u),
      req_completion_tokens = Some (completion_tokens u),
      req_total_tokens = Some (total_tokens u),
      req_cost_usd = Some cost, req_success = True, req_error_message = None\<rparr>"

definition failure_row :: "string option \<Rightarrow> string \<Rightarrow> provider \<Rightarrow> string \<Rightarrow> string \<Rightarrow> ai_request" where
  "failure_row user_id ai_type p model error_msg =
     \<lparr>req_user_id = user_id, req_ai_type = ai_type, req_provider = name p, req_model = model,
      req_prompt_tokens = None, req_completion_tokens = None, req_total_tokens = None,
      req_cost_usd = None, req_success = False, req_error_message = Some error_msg\<rparr>"

text \<open>\<open>"; ".join([f"{e['provider']}: {e['error']}" for e in errors])\<close>\<close>

fun join :: "string \<Rightarrow> string list \<Rightarrow> string" where
  "join sep [] = []"
| "join sep [x] = x"
| "join sep (x # y # ys) = x @ sep @ join sep (y # ys)"

definition error_summary :: "(string \<times> string) list \<Rightarrow> string" where
  "error_summary errors = join ''; '' (map (\<lambda>(p, e). p @ '': '' @ e) errors)"

text \<open>
  The body of the \<open>for\<close> loop of \<open>generate\<close> over the providers still to be tried, with the
  list \<open>errors\<close> collected so far; falling out of the loop raises the final exception.
\<close>

fun generate_loop ::
  "env \<Rightarrow> (string \<times> string) list \<Rightarrow> string \<Rightarrow> string option \<Rightarrow> rat \<Rightarrow> int \<Rightarrow> bool
     \<Rightarrow> provider list \<Rightarrow> (string \<times> string) list \<Rightarrow> state \<Rightarrow> (error + completion) \<times> state" where
  "generate_loop E msgs ai_type user_id temp mt stream [] errors s =
     (Inl (Exception (''All AI providers failed: '' @ error_summary errors)), s)"
| "generate_loop E msgs ai_type user_id temp mt stream (p # ps) errors s =
     (case get_model p ai_type of
        None \<Rightarrow> generate_loop E msgs ai_type user_id temp mt stream ps errors s
      | Some model \<Rightarrow>
          (let mt' = min mt (max_tokens p);
               s1 = record_call \<lparr>call_provider_name = name p, call_model = model,
                                 call_temperature = temp, call_max_tokens = mt'\<rparr> s
           in case call_provider E p model msgs temp mt' stream of
                Inr rd \<Rightarrow>
                  (let cost = calculate_cost (total_tokens (usage rd)) (cost_per_1k_tokens p);
                       s2 = add_success (name p) cost s1;
                       s3 = log_request E (success_row user_id ai_type p model (usage rd) cost) s2
                   in (Inr \<lparr>res_content = content rd, res_provider = name p, res_model = model,
                             res_usage = usage rd, res_cost = cost\<rparr>, s3))
              | Inl error_msg \<Rightarrow>
                  (let s2 = add_failure (name p) s1;
                       s3 = log_request E (failure_row user_id ai_type p model error_msg) s2
                   in generate_loop E msgs ai_type user_id temp mt stream ps
                        (errors @ [(name p, error_msg)]) s3)))"

definition generate ::
  "env \<Rightarrow> provider list \<Rightarrow> (string \<times> string) list \<Rightarrow> string \<Rightarrow> string option \<Rightarrow> rat option
     \<Rightarrow> int option \<Rightarrow> bool \<Rightarrow> state \<Rightarrow> (error + completion) \<times> state" where
  "generate E providers msgs ai_type user_id temperature max_toks stream s =
     (let temp = or_default temperature (AI_TEMPERATURE E);
          mt = or_default max_toks (AI_MAX_TOKENS E)
      in generate_loop E msgs ai_type user_id temp mt stream
           (sort_key priority providers) [] s)"

text \<open>The registry built by \<open>__init__\<close>, with the model names of config.py.\<close>

definition groq :: provider where
  "groq = \<lparr>name = ''groq'',
           models = [''susan'' \<mapsto> ''llama-3.3-70b-versatile'', ''agnes'' \<mapsto> ''llama-3.3-70b-versatile''],
           cost_per_1k_tokens = 59 / 100000, priority = 1, max_tokens = 8192,
           supports_streaming = True\<rparr>"

definition together :: provider where
  "together = \<lparr>name = ''together'',
           models = [''susan'' \<mapsto> ''Qwen/Qwen2.5-72B-Instruct-Turbo'',
                     ''agnes'' \<mapsto> ''Qwen/Qwen2.5-72B-Instruct-Turbo''],
           cost_per_1k_tokens = 9 / 10000, priority = 2, max_tokens = 8192,
           supports_streaming = True\<rparr>"

definition openrouter :: provider where
  "openrouter = \<lparr>name = ''openrouter'',
           models = [''susan'' \<mapsto> ''auto'', ''agnes'' \<mapsto> ''auto''],
           cost_per_1k_tokens = 1 / 1000, priority = 3, max_tokens = 4096,
           supports_streaming = True\<rparr>"

definition registry :: "provider list" where
  "registry = [groq, together, openrouter]"

definition init_state :: state where
  "init_state = \<lparr>provider_stats = (\<lambda>_. \<lparr>successes = 0, failures = 0, total_cost = 0\<rparr>),
                 ledger = [], calls = []\<rparr>"

section \<open>The intent router (services/ai\_router.py)\<close>

definition lower_char :: "char \<Rightarrow> char" where
  "lower_char c =
     (case map_of (zip ''ABCDEFGHIJKLMNOPQRSTUVWXYZ'' ''abcdefghijklmnopqrstuvwxyz'') c of
        None \<Rightarrow> c | Some d \<Rightarrow> d)"

definition lower :: "string \<Rightarrow> string" where
  "lower s = map lower_char s"

fun str_in :: "string \<Rightarrow> string \<Rightarrow> bool" where
  "str_in sub [] = (sub = [])"
| "str_in sub (c # cs) = (prefix sub (c # cs) \<or> str_in sub cs)"

definition py_div :: "rat \<Rightarrow> rat \<Rightarrow> error + rat" where
  "py_div a b = (if b = 0 then Inl ZeroDivisionError else Inr (a / b))"

definition TRAINING_KEYWORDS :: "(string \<times> rat) list" where
  "TRAINING_KEYWORDS =
     [(''practice'', 1), (''roleplay'', 1), (''training'', 1), (''scenario'', 9/10),
      (''teach me'', 9/10), (''learn'', 8/10), (''how to handle'', 9/10),
      (''what should i say'', 9/10), (''how do i respond'', 9/10), (''objection'', 7/10),
      (''script'', 7/10), (''agnes'', 1), (''train'', 8/10), (''rehearse'', 9/10),
      (''prepare for'', 8/10)]"

definition SUSAN_KEYWORDS :: "(string \<times> rat) list" where
  "SUSAN_KEYWORDS =
     [(''building code'', 1), (''manufacturer'', 9/10), (''insurance'', 9/10), (''claim'', 9/10),
      (''adjuster'', 9/10), (''policy'', 8/10), (''coverage'', 8/10), (''GAF'', 1),
      (''Owens Corning'', 1), (''CertainTeed'', 1), (''IBC'', 1), (''IRC'', 1), (''NFPA'', 1),
      (''wind'', 6/10), (''hail'', 6/10), (''storm'', 6/10), (''damage'', 7/10), (''susan'', 1),
      (''flashing'', 8/10), (''underlayment'', 8/10), (''shingles'', 7/10), (''roof'', 6/10),
      (''photo report'', 9/10), (''iTel'', 9/10), (''template'', 7/10),
      (''documentation'', 7/10), (''estimate'', 7/10), (''complaint'', 8/10),
      (''arbitration'', 8/10)]"

datatype regex = Lit string | Alt "regex list" | Seq "regex list"

primrec lang :: "regex \<Rightarrow> string list" where
  "lang (Lit s) = [s]"
| "lang (Alt rs) = concat (map lang rs)"
| "lang (Seq rs) = foldr (\<lambda>ws acc. concat (map (\<lambda>w. map (\<lambda>v. w @ v) acc) ws)) (map lang rs) [[]]"

definition re_search_ignorecase :: "regex \<Rightarrow> string \<Rightarrow> bool" where
  "re_search_ignorecase r s = list_ex (\<lambda>w. str_in (lower w) (lower s)) (lang r)"

definition TECHNICAL_QUESTION_PATTERNS :: "regex list" where
  "TECHNICAL_QUESTION_PATTERNS =
     [Seq [Lit ''what '', Alt [Lit ''is'', Lit ''are''], Lit '' the '',
           Alt [Lit ''code'', Lit ''requirement'', Lit ''guideline'']],
      Seq [Lit ''how '', Alt [Lit ''do'', Lit ''does''], Lit '' '',
           Alt [Lit ''insurance'', Lit ''claim'', Lit ''policy'']],
      Seq [Alt [Lit ''can'', Lit ''should'', Lit ''must''], Lit '' '',
           Alt [Lit ''i'', Lit ''we'', Lit ''they'']],
      Seq [Lit ''what '', Alt [Lit ''does'', Lit ''is''], Lit '' '',
           Alt [Lit ''GAF'', Lit ''Owens Corning'', Lit ''IBC'', Lit ''IRC'']],
      Alt [Lit ''wind speed'', Lit ''hail size'', Lit ''storm'']]"

definition TRAINING_QUESTION_PATTERNS :: "regex list" where
  "TRAINING_QUESTION_PATTERNS =
     [Seq [Lit ''how '', Alt [Lit ''do i'', Lit ''should i''], Lit '' '',
           Alt [Lit ''handle'', Lit ''respond'', Lit ''deal with'']],
      Seq [Lit ''what '', Alt [Lit ''should'', Lit ''would'', Lit ''could''], Lit '' i say''],
      Alt [Lit ''practice'', Lit ''roleplay'', Lit ''train'', Lit ''rehearse''],
      Seq [Alt [Lit ''help me'', Lit ''teach me'', Lit ''show me''], Lit '' '',
           Alt [Lit ''how to'', Lit ''to'']]]"

text \<open>
  The context is a Python dictionary. Its values are modelled by the built-in types a caller
  can put there: \<open>None\<close>, booleans, integers, floats (the finite ones by their exact value),
  strings, lists and dictionaries.
\<close>

datatype py_float = Finite rat | PosInf | NegInf | NaN

datatype py_value =
    PyNone
  | PyBool bool
  | PyInt int
  | PyFloat py_float
  | PyStr string
  | PyList "py_value list"
  | PyDict "(string \<times> py_value) list"

type_synonym routing_context = "string \<rightharpoonup> py_value"

definition empty_context :: routing_context where
  "empty_context = Map.empty"

text \<open>\<open>context.get(key)\<close> and \<open>context.get(key, default)\<close>: the default stands for a missing key only.\<close>

definition dict_get :: "routing_context \<Rightarrow> string \<Rightarrow> py_value" where
  "dict_get ctx key = (case ctx key of None \<Rightarrow> PyNone | Some v \<Rightarrow> v)"

definition dict_get_or :: "routing_context \<Rightarrow> string \<Rightarrow> py_value \<Rightarrow> py_value" where
  "dict_get_or ctx key dflt = (case ctx key of None \<Rightarrow> dflt | Some v \<Rightarrow> v)"

text \<open>The truth value of \<open>if value:\<close>.\<close>

fun truthy :: "py_value \<Rightarrow> bool" where
  "truthy PyNone = False"
| "truthy (PyBool b) = b"
| "truthy (PyInt i) = (i \<noteq> 0)"
| "truthy (PyFloat f) = (f \<noteq> Finite 0)"
| "truthy (PyStr s) = (s \<noteq> [])"
| "truthy (PyList xs) = (xs \<noteq> [])"
| "truthy (PyDict kvs) = (kvs \<noteq> [])"

text \<open>
  \<open>value >= n\<close> for an integer \<open>n\<close>: numbers compare by value (\<open>True\<close> is 1, \<open>False\<close> is 0, a
  NaN compares false), every other type raises \<open>TypeError\<close>.
\<close>

fun float_ge :: "py_float \<Rightarrow> int \<Rightarrow> bool" where
  "float_ge (Finite r) n = (of_int n \<le> r)"
| "float_ge PosInf n = True"
| "float_ge NegInf n = False"
| "float_ge NaN n = False"

fun py_ge :: "py_value \<Rightarrow> int \<Rightarrow> error + bool" where
  "py_ge (PyBool b) n = Inr (n \<le> (if b then 1 else 0))"
| "py_ge (PyInt i) n = Inr (n \<le> i)"
| "py_ge (PyFloat f) n = Inr (float_ge f n)"
| "py_ge PyNone n = Inl TypeError"
| "py_ge (PyStr s) n = Inl TypeError"
| "py_ge (PyList xs) n = Inl TypeError"
| "py_ge (PyDict kvs) n = Inl TypeError"

datatype reason =
    ExplicitSusan
  | ExplicitAgnes
  | ActiveTrainingScenario
  | TrainingContinuity py_value
  | TechnicalContinuity py_value
  | TrainingIntent rat
  | TechnicalIntent rat
  | DefaultRouting

definition calculate_keyword_score :: "string \<Rightarrow> (string \<times> rat) list \<Rightarrow> rat" where
  "calculate_keyword_score message keywords =
     fold (\<lambda>(keyword, weight) score. if str_in keyword message then score + weight else score)
       keywords 0"

definition check_patterns :: "string \<Rightarrow> regex list \<Rightarrow> bool" where
  "check_patterns message patterns = list_ex (\<lambda>pattern. re_search_ignorecase pattern message) patterns"

definition priority_rules ::
  "string \<Rightarrow> routing_context \<Rightarrow> error + (string \<times> reason \<times> rat) option" where
  "priority_rules message_lower ctx =
     (if str_in ''susan'' message_lower \<and> \<not> str_in ''agnes'' message_lower
        then Inr (Some (''susan'', ExplicitSusan, 1))
      else if str_in ''agnes'' message_lower \<and> \<not> str_in ''susan'' message_lower
        then Inr (Some (''agnes'', ExplicitAgnes, 1))
      else if truthy (dict_get ctx ''active_training_scenario'')
        then Inr (Some (''agnes'', ActiveTrainingScenario, 1))
      else
        (case (if dict_get ctx ''last_ai'' = PyStr ''agnes''
               then (let agnes_streak = dict_get_or ctx ''agnes_message_count'' (PyInt 0)
                     in case py_ge agnes_streak 3 of
                          Inl e \<Rightarrow> Inl e
                        | Inr b \<Rightarrow> Inr (if b then Some (''agnes'', TrainingContinuity agnes_streak, 9/10)
                                          else None))
               else Inr None) of
           Inl e \<Rightarrow> Inl e
         | Inr (Some r) \<Rightarrow> Inr (Some r)
         | Inr None \<Rightarrow>
             (if dict_get ctx ''last_ai'' = PyStr ''susan''
              then (let susan_streak = dict_get_or ctx ''susan_message_count'' (PyInt 0)
                    in case py_ge susan_streak 3 of
                         Inl e \<Rightarrow> Inl e
                       | Inr b \<Rightarrow> Inr (if b then Some (''susan'', TechnicalContinuity susan_streak, 9/10)
                                         else None))
              else Inr None)))"

definition intent_scores :: "string \<Rightarrow> routing_context \<Rightarrow> rat \<times> rat" where
  "intent_scores message_lower ctx =
     (let training_score = calculate_keyword_score message_lower TRAINING_KEYWORDS;
          technical_score = calculate_keyword_score message_lower SUSAN_KEYWORDS;
          training_pattern_match = check_patterns message_lower TRAINING_QUESTION_PATTERNS;
          technical_pattern_match = check_patterns message_lower TECHNICAL_QUESTION_PATTERNS;
          training_score = (if training_pattern_match then training_score + 1/2 else training_score);
          technical_score = (if technical_pattern_match then technical_score + 1/2 else technical_score);
          training_score = (if truthy (dict_get ctx ''recent_scenario_completion'')
                            then training_score + 3/10 else training_score);
          technical_score = (if truthy (dict_get ctx ''recent_claim_discussion'')
                             then technical_score + 3/10 else technical_score)
      in (training_score, technical_score))"

definition decide :: "rat \<Rightarrow> rat \<Rightarrow> error + (string \<times> reason \<times> rat)" where
  "decide training_score technical_score =
     (if training_score > technical_score then
        (case py_div training_score (training_score + technical_score + 1/10) of
           Inl e \<Rightarrow> Inl e
         | Inr q \<Rightarrow> Inr (''agnes'', TrainingIntent training_score, min q 1))
      else if technical_score > training_score then
        (case py_div technical_score (training_score + technical_score + 1/10) of
           Inl e \<Rightarrow> Inl e
         | Inr q \<Rightarrow> Inr (''susan'', TechnicalIntent technical_score, min q 1))
      else Inr (''susan'', DefaultRouting, 1/2))"

definition route :: "string \<Rightarrow> routing_context option \<Rightarrow> error + (string \<times> reason \<times> rat)" where
  "route message context_arg =
     (let ctx = (case context_arg of None \<Rightarrow> empty_context | Some c \<Rightarrow> c);
          message_lower = lower message
      in case priority_rules message_lower ctx of
           Inl e \<Rightarrow> Inl e
         | Inr (Some r) \<Rightarrow> Inr r
         | Inr None \<Rightarrow> (case intent_scores message_lower ctx of
                          (training_score, technical_score) \<Rightarrow> decide training_score technical_score))"

section \<open>Derived notions used in the statements\<close>

definition attempt ::
  "env \<Rightarrow> (string \<times> string) list \<Rightarrow> string \<Rightarrow> rat \<Rightarrow> int \<Rightarrow> bool \<Rightarrow> provider
     \<Rightarrow> (string + response_data) option" where
  "attempt E msgs ai_type temp mt stream p =
     (case get_model p ai_type of
        None \<Rightarrow> None
      | Some model \<Rightarrow> Some (call_provider E p model msgs temp (min mt (max_tokens p)) stream))"

definition call_of :: "string \<Rightarrow> rat \<Rightarrow> int \<Rightarrow> provider \<Rightarrow> provider_call" where
  "call_of ai_type temp mt p =
     \<lparr>call_provider_name = name p,
      call_model = (case get_model p ai_type of None \<Rightarrow> [] | Some m \<Rightarrow> m),
      call_temperature = temp, call_max_tokens = min mt (max_tokens p)\<rparr>"

definition completion_of :: "string \<Rightarrow> provider \<Rightarrow> response_data \<Rightarrow> completion" where
  "completion_of ai_type p rd =
     \<lparr>res_content = content rd, res_provider = name p,
      res_model = (case get_model p ai_type of None \<Rightarrow> [] | Some m \<Rightarrow> m),
      res_usage = usage rd,
      res_cost = calculate_cost (total_tokens (usage rd)) (cost_per_1k_tokens p)\<rparr>"

fun tried ::
  "env \<Rightarrow> (string \<times> string) list \<Rightarrow> string \<Rightarrow> rat \<Rightarrow> int \<Rightarrow> bool \<Rightarrow> provider list
     \<Rightarrow> provider list" where
  "tried E msgs ai_type temp mt stream [] = []"
| "tried E msgs ai_type temp mt stream (p # ps) =
     (case attempt E msgs ai_type temp mt stream p of
        None \<Rightarrow> tried E msgs ai_type temp mt stream ps
      | Some (Inr rd) \<Rightarrow> [p]
      | Some (Inl e) \<Rightarrow> p # tried E msgs ai_type temp mt stream ps)"

definition attempt_errors ::
  "env \<Rightarrow> (string \<times> string) list \<Rightarrow> string \<Rightarrow> rat \<Rightarrow> int \<Rightarrow> bool \<Rightarrow> provider list
     \<Rightarrow> (string \<times> string) list" where
  "attempt_errors E msgs ai_type temp mt stream ps =
     concat (map (\<lambda>p. case attempt E msgs ai_type temp mt stream p of
                         Some (Inl e) \<Rightarrow> [(name p, e)]
                       | _ \<Rightarrow> []) ps)"

definition succeeds ::
  "env \<Rightarrow> (string \<times> string) list \<Rightarrow> string \<Rightarrow> rat \<Rightarrow> int \<Rightarrow> bool \<Rightarrow> provider \<Rightarrow> bool" where
  "succeeds E msgs ai_type temp mt stream p =
     (case attempt E msgs ai_type temp mt stream p of Some (Inr rd) \<Rightarrow> True | _ \<Rightarrow> False)"

definition configured :: "string \<Rightarrow> provider \<Rightarrow> bool" where
  "configured ai_type p = (get_model p ai_type \<noteq> None)"

definition attempts_recorded :: "stats \<Rightarrow> nat" where
  "attempts_recorded st = successes st + failures st"

text \<open>Example environments: every client answers as \<open>outcome\<close> says for its provider's name, with the settings of config.py.\<close>

definition ok_response :: response_data where
  "ok_response = \<lparr>content = ''ok'',
                   usage = \<lparr>prompt_tokens = 10, completion_tokens = 20, total_tokens = 30\<rparr>\<rparr>"

definition example_env :: "(string \<Rightarrow> string + response_data) \<Rightarrow> bool \<Rightarrow> env" where
  "example_env outcome db_ok =
     \<lparr>client = (\<lambda>p model msgs temp mt stream. outcome (name p)),
      commit = (\<lambda>r. db_ok), AI_TEMPERATURE = 7/10, AI_MAX_TOKENS = 2048\<rparr>"

definition groq_down :: "string \<Rightarrow> string + response_data" where
  "groq_down n = (if n = ''groq'' then Inl ''rate limit'' else Inr ok_response)"

definition all_down :: "string \<Rightarrow> string + response_data" where
  "all_down n = Inl ''timeout''"

text \<open>More example outcomes: every provider answers, and a provider whose reported total is not the sum of its parts.\<close>

definition all_up :: "string \<Rightarrow> string + response_data" where
  "all_up n = Inr ok_response"

definition misreporting :: "string \<Rightarrow> string + response_data" where
  "misreporting n = Inr \<lparr>content = ''ok'',
       usage = \<lparr>prompt_tokens = 1, completion_tokens = 1, total_tokens = 5\<rparr>\<rparr>"



text \<open>
  The scores as they stand at step 7 of \<open>route\<close>, when the execution gets there: none when
  one of the rules 1 to 3 has already returned or raised.
\<close>

definition final_scores :: "string \<Rightarrow> routing_context option \<Rightarrow> (rat \<times> rat) option" where
  "final_scores message context_arg =
     (let ctx = (case context_arg of None \<Rightarrow> empty_context | Some c \<Rightarrow> c);
          message_lower = lower message
      in case priority_rules message_lower ctx of
           Inr None \<Rightarrow> Some (intent_scores message_lower ctx)
         | _ \<Rightarrow> None)"

text \<open>
  The values that \<open>>=\<close> compares with an integer, and the executions of \<open>route\<close> that reach
  such a comparison with another value: no explicit mention and no active training scenario
  has decided, and the count read for the persona of the last turn is present and is not a
  number.
\<close>

fun is_number :: "py_value \<Rightarrow> bool" where
  "is_number (PyBool b) = True"
| "is_number (PyInt i) = True"
| "is_number (PyFloat f) = True"
| "is_number PyNone = False"
| "is_number (PyStr s) = False"
| "is_number (PyList xs) = False"
| "is_number (PyDict kvs) = False"

definition compares_non_number :: "string \<Rightarrow> routing_context option \<Rightarrow> bool" where
  "compares_non_number message context_arg =
     (let ctx = (case context_arg of None \<Rightarrow> empty_context | Some c \<Rightarrow> c);
          message_lower = lower message
      in \<not> (str_in ''susan'' message_lower \<and> \<not> str_in ''agnes'' message_lower)
         \<and> \<not> (str_in ''agnes'' message_lower \<and> \<not> str_in ''susan'' message_lower)
         \<and> \<not> truthy (dict_get ctx ''active_training_scenario'')
         \<and> (if dict_get ctx ''last_ai'' = PyStr ''agnes''
              then \<not> is_number (dict_get_or ctx ''agnes_message_count'' (PyInt 0))
            else if dict_get ctx ''last_ai'' = PyStr ''susan''
              then \<not> is_number (dict_get_or ctx ''susan_message_count'' (PyInt 0))
            else False))"

text \<open>Every count that is present in the context is a number.\<close>

definition counts_are_numbers :: "routing_context option \<Rightarrow> bool" where
  "counts_are_numbers context_arg =
     (let ctx = (case context_arg of None \<Rightarrow> empty_context | Some c \<Rightarrow> c)
      in is_number (dict_get_or ctx ''agnes_message_count'' (PyInt 0))
         \<and> is_number (dict_get_or ctx ''susan_message_count'' (PyInt 0)))"

text \<open>Contexts used as examples.\<close>

definition count_is_none :: routing_context where
  "count_is_none = [''last_ai'' \<mapsto> PyStr ''agnes'', ''agnes_message_count'' \<mapsto> PyNone]"

definition count_is_text :: routing_context where
  "count_is_text = [''last_ai'' \<mapsto> PyStr ''susan'', ''susan_message_count'' \<mapsto> PyStr ''5'']"

definition five_turns_with_agnes :: routing_context where
  "five_turns_with_agnes = [''last_ai'' \<mapsto> PyStr ''agnes'', ''agnes_message_count'' \<mapsto> PyInt 5]"

text \<open>\<open>str.title()\<close> on ASCII text: a letter that follows a letter is lowered, any other letter is raised.\<close>

definition upper_char :: "char \<Rightarrow> char" where
  "upper_char c =
     (case map_of (zip ''abcdefghijklmnopqrstuvwxyz'' ''ABCDEFGHIJKLMNOPQRSTUVWXYZ'') c of
        None \<Rightarrow> c | Some d \<Rightarrow> d)"

definition is_alpha :: "char \<Rightarrow> bool" where
  "is_alpha c = (c \<in> set ''abcdefghijklmnopqrstuvwxyzABCDEFGHIJKLMNOPQRSTUVWXYZ'')"

fun title_from :: "bool \<Rightarrow> string \<Rightarrow> string" where
  "title_from after_letter [] = []"
| "title_from after_letter (c # cs) =
     (if is_alpha c
      then (if after_letter then lower_char c else upper_char c) # title_from True cs
      else c # title_from False cs)"

definition title :: "string \<Rightarrow> string" where
  "title s = title_from False s"

definition generate_handoff_message :: "string \<Rightarrow> string \<Rightarrow> string" where
  "generate_handoff_message from_ai to_ai =
     (if from_ai = ''susan'' \<and> to_ai = ''agnes'' then
        ''It sounds like you'd like to practice this! Let me connect you with Agnes for some roleplay training. She's great at this!''
      else if from_ai = ''agnes'' \<and> to_ai = ''susan'' then
        ''Great practice! For the actual technical details and insurance specifics, let me hand you over to Susan. She's the expert on real-world claims!''
      else ''Let me connect you with '' @ title to_ai @ '' for this.'')"

text \<open>The dictionary returned by \<open>suggest_handoff\<close>.\<close>

record handoff =
  suggested_ai :: string
  handoff_reason :: reason
  handoff_confidence :: rat
  handoff_message :: string

definition suggest_handoff :: "string \<Rightarrow> string \<Rightarrow> int \<Rightarrow> error + handoff option" where
  "suggest_handoff current_ai message conversation_length =
     (if conversation_length < 3 then Inr None
      else case route message None of
             Inl e \<Rightarrow> Inl e
           | Inr (optimal_ai, reason, conf) \<Rightarrow>
               if optimal_ai \<noteq> current_ai \<and> conf \<ge> 8/10
               then Inr (Some \<lparr>suggested_ai = optimal_ai, handoff_reason = reason,
                               handoff_confidence = conf,
                               handoff_message = generate_handoff_message current_ai optimal_ai\<rparr>)
               else Inr None)"

text \<open>
  Following the claim's words: routing from the message alone, that is the explicit
  mentions of rule 1 and then the decision on the keyword and pattern scores, with no
  active-session rule, no continuity rule and no contextual bonus.
\<close>

definition route_message_only :: "string \<Rightarrow> error + (string \<times> reason \<times> rat)" where
  "route_message_only message =
     (let m = lower message in
      if str_in ''susan'' m \<and> \<not> str_in ''agnes'' m then Inr (''susan'', ExplicitSusan, 1)
      else if str_in ''agnes'' m \<and> \<not> str_in ''susan'' m then Inr (''agnes'', ExplicitAgnes, 1)
      else decide
             (calculate_keyword_score m TRAINING_KEYWORDS
                + (if check_patterns m TRAINING_QUESTION_PATTERNS then 1/2 else 0))
             (calculate_keyword_score m SUSAN_KEYWORDS
                + (if check_patterns m TECHNICAL_QUESTION_PATTERNS then 1/2 else 0)))"

section \<open>The failover loop\<close>

lemma calls_log_request [simp]: "calls (log_request E r s) = calls s"
  by (simp add: log_request_def)

lemma calls_add_success [simp]: "calls (add_success n c s) = calls s"
  by (simp add: add_success_def)

lemma calls_add_failure [simp]: "calls (add_failure n s) = calls s"
  by (simp add: add_failure_def)

lemma calls_record_call [simp]: "calls (record_call c s) = calls s @ [c]"
  by (simp add: record_call_def)

lemma loop_calls:
  "calls (snd (generate_loop E msgs ai_type user_id temp mt stream ps errors s)) =
     calls s @ map (call_of ai_type temp mt) (tried E msgs ai_type temp mt stream ps)"
proof (induction ps arbitrary: errors s)
  case Nil
  show ?case by simp
next
  case (Cons p ps)
  show ?case
  proof (cases "get_model p ai_type")
    case None
    then show ?thesis using Cons.IH by (simp add: attempt_def)
  next
    case (Some m)
    show ?thesis
    proof (cases "call_provider E p m msgs temp (min mt (max_tokens p)) stream")
      case (Inl e)
      with Some show ?thesis
        by (simp add: attempt_def Cons.IH call_of_def Let_def)
    next
      case (Inr rd)
      with Some show ?thesis
        by (simp add: attempt_def call_of_def Let_def)
    qed
  qed
qed

lemma loop_exhausted:
  "\<forall>p\<in>set ps. \<not> succeeds E msgs ai_type temp mt stream p \<Longrightarrow>
   fst (generate_loop E msgs ai_type user_id temp mt stream ps errors s) =
     Inl (Exception (''All AI providers failed: '' @
            error_summary (errors @ attempt_errors E msgs ai_type temp mt stream ps)))"
proof (induction ps arbitrary: errors s)
  case Nil
  show ?case by (simp add: attempt_errors_def)
next
  case (Cons p ps)
  have rest: "\<forall>q\<in>set ps. \<not> succeeds E msgs ai_type temp mt stream q"
    using Cons.prems by simp
  have nosucc: "\<not> succeeds E msgs ai_type temp mt stream p"
    using Cons.prems by simp
  show ?case
  proof (cases "get_model p ai_type")
    case None
    then show ?thesis using Cons.IH [OF rest] by (simp add: attempt_errors_def attempt_def)
  next
    case (Some m)
    show ?thesis
    proof (cases "call_provider E p m msgs temp (min mt (max_tokens p)) stream")
      case (Inl e)
      with Some show ?thesis
        using Cons.IH [OF rest] by (simp add: attempt_errors_def attempt_def Let_def)
    next
      case (Inr rd)
      with Some nosucc show ?thesis by (simp add: succeeds_def attempt_def)
    qed
  qed
qed



lemma loop_first_success:
  assumes "\<forall>q\<in>set pre. \<not> succeeds E msgs ai_type temp mt stream q"
    and "attempt E msgs ai_type temp mt stream p = Some (Inr rd)"
  shows "fst (generate_loop E msgs ai_type user_id temp mt stream (pre @ p # post) errors s) =
           Inr (completion_of ai_type p rd)"
  using assms
proof (induction pre arbitrary: errors s)
  case Nil
  then show ?case
    by (auto simp: attempt_def completion_of_def Let_def split: option.splits)
next
  case (Cons q pre)
  have rest: "\<forall>r\<in>set pre. \<not> succeeds E msgs ai_type temp mt stream r"
    using Cons.prems by simp
  have nosucc: "\<not> succeeds E msgs ai_type temp mt stream q"
    using Cons.prems by simp
  show ?case
  proof (cases "get_model q ai_type")
    case None
    then show ?thesis using Cons.IH [OF rest Cons.prems(2)] by simp
  next
    case (Some m)
    show ?thesis
    proof (cases "call_provider E q m msgs temp (min mt (max_tokens q)) stream")
      case (Inl e)
      with Some show ?thesis
        using Cons.IH [OF rest Cons.prems(2)] by (simp add: Let_def)
    next
      case (Inr rd')
      with Some nosucc show ?thesis by (simp add: succeeds_def attempt_def)
    qed
  qed
qed

lemma tried_first_success:
  assumes "\<forall>q\<in>set pre. \<not> succeeds E msgs ai_type temp mt stream q"
    and "succeeds E msgs ai_type temp mt stream p"
  shows "tried E msgs ai_type temp mt stream (pre @ p # post) = filter (configured ai_type) pre @ [p]"
  using assms
  by (induction pre)
     (auto simp: succeeds_def attempt_def configured_def split: option.splits sum.splits)

lemma stats_log_request [simp]: "provider_stats (log_request E r s) = provider_stats s"
  by (simp add: log_request_def)

lemma stats_record_call [simp]: "provider_stats (record_call c s) = provider_stats s"
  by (simp add: record_call_def)

lemma ledger_record_call [simp]: "ledger (record_call c s) = ledger s"
  by (simp add: record_call_def)

lemma ledger_add_success [simp]: "ledger (add_success n c s) = ledger s"
  by (simp add: add_success_def)

lemma ledger_add_failure [simp]: "ledger (add_failure n s) = ledger s"
  by (simp add: add_failure_def)

lemma attempts_add_success [simp]:
  "attempts_recorded (provider_stats (add_success m c s) n) =
     attempts_recorded (provider_stats s n) + (if m = n then 1 else 0)"
  by (simp add: add_success_def attempts_recorded_def)

lemma attempts_add_failure [simp]:
  "attempts_recorded (provider_stats (add_failure m s) n) =
     attempts_recorded (provider_stats s n) + (if m = n then 1 else 0)"
  by (simp add: add_failure_def attempts_recorded_def)



lemma tried_subset:
  "set (tried E msgs ai_type temp mt stream ps) \<subseteq> {p \<in> set ps. configured ai_type p}"
  by (induction ps)
     (auto simp: attempt_def configured_def split: option.splits sum.splits)

lemma str_in_iff: "str_in sub s \<longleftrightarrow> sublist sub s"
  by (induction s) (auto simp: sublist_Cons_right)

lemma loop_all_skipped:
  "\<forall>p\<in>set ps. get_model p ai_type = None \<Longrightarrow>
   generate_loop E msgs ai_type user_id temp mt stream ps errors s =
     (Inl (Exception (''All AI providers failed: '' @ error_summary errors)), s)"
  by (induction ps) simp_all

text \<open>
  Claim C9. When no provider has a model configured for the requested persona, \<open>generate\<close>
  raises the final exception with an empty list of attempts (the summary after the fixed
  prefix is empty) and the state is returned unchanged: no counter moves, no row is written,
  no provider is called.
\<close>

theorem generate_unconfigured_persona:
  assumes "\<forall>p\<in>set providers. get_model p ai_type = None"
  shows "generate E providers msgs ai_type user_id temperature max_toks stream s =
           (Inl (Exception ''All AI providers failed: ''), s)"
proof -
  have "\<forall>p\<in>set (sort_key priority providers). get_model p ai_type = None"
    using assms by simp
  from loop_all_skipped [OF this] show ?thesis
    by (simp add: generate_def error_summary_def)
qed

lemmas registry_eval = registry_def groq_def together_def openrouter_def get_model_def
  example_env_def init_state_def

theorem generate_unconfigured_persona_witness:
  "list_all (\<lambda>p. get_model p ''trainer'' = None) registry \<and>
   generate (example_env all_down True) registry [] ''trainer'' None None None False init_state =
     (Inl (Exception ''All AI providers failed: ''), init_state)"
proof -
  have h: "\<forall>p\<in>set registry. get_model p ''trainer'' = None"
    by (simp add: registry_eval)
  show ?thesis
    using h generate_unconfigured_persona [OF h] by (simp add: list_all_iff)
qed

lemma sort_key_priority_props:
  "sorted (map priority (sort_key priority ps))"
  "filter (\<lambda>q. priority q = k) (sort_key priority ps) = filter (\<lambda>q. priority q = k) ps"
  by (simp_all add: sort_key_stable)

text \<open>
  Claim C1. If some provider has a model for the persona and its call succeeds, the
  providers sorted by ascending priority (a stable sort: providers of equal priority keep
  their registration order) split as \<open>pre @ p # post\<close> where \<open>p\<close> is the first one
  that succeeds; \<open>generate\<close> returns the result of \<open>p\<close>, and the calls it issued are exactly
  those to the configured providers of \<open>pre\<close> followed by the one to \<open>p\<close>: nothing in
  \<open>post\<close> is called.
\<close>

theorem generate_first_success:
  assumes "\<exists>p\<in>set providers.
             succeeds E msgs ai_type (or_default temperature (AI_TEMPERATURE E))
               (or_default max_toks (AI_MAX_TOKENS E)) stream p"
  shows "\<exists>pre p post rd.
           sort_key priority providers = pre @ p # post
         \<and> sorted (map priority (pre @ p # post))
         \<and> (\<forall>k. filter (\<lambda>q. priority q = k) (pre @ p # post) = filter (\<lambda>q. priority q = k) providers)
         \<and> (\<forall>q\<in>set pre. \<not> succeeds E msgs ai_type (or_default temperature (AI_TEMPERATURE E))
                              (or_default max_toks (AI_MAX_TOKENS E)) stream q)
         \<and> attempt E msgs ai_type (or_default temperature (AI_TEMPERATURE E))
               (or_default max_toks (AI_MAX_TOKENS E)) stream p = Some (Inr rd)
         \<and> fst (generate E providers msgs ai_type user_id temperature max_toks stream s) =
               Inr (completion_of ai_type p rd)
         \<and> calls (snd (generate E providers msgs ai_type user_id temperature max_toks stream s)) =
               calls s @ map (call_of ai_type (or_default temperature (AI_TEMPERATURE E))
                                (or_default max_toks (AI_MAX_TOKENS E)))
                           (filter (configured ai_type) pre @ [p])"
proof -
  let ?T = "or_default temperature (AI_TEMPERATURE E)"
  let ?M = "or_default max_toks (AI_MAX_TOKENS E)"
  let ?ord = "sort_key priority providers"
  have "\<exists>p\<in>set ?ord. succeeds E msgs ai_type ?T ?M stream p"
    using assms by simp
  then obtain pre p post where split: "?ord = pre @ p # post"
    and p: "succeeds E msgs ai_type ?T ?M stream p"
    and pre: "\<forall>q\<in>set pre. \<not> succeeds E msgs ai_type ?T ?M stream q"
    using split_list_first_prop [of ?ord "succeeds E msgs ai_type ?T ?M stream"] by blast
  from p obtain rd where rd: "attempt E msgs ai_type ?T ?M stream p = Some (Inr rd)"
    by (auto simp: succeeds_def split: option.splits sum.splits)
  have res: "fst (generate E providers msgs ai_type user_id temperature max_toks stream s) =
               Inr (completion_of ai_type p rd)"
    using loop_first_success [OF pre rd] by (simp add: generate_def split)
  have tr: "calls (snd (generate E providers msgs ai_type user_id temperature max_toks stream s)) =
              calls s @ map (call_of ai_type ?T ?M) (filter (configured ai_type) pre @ [p])"
    using tried_first_success [OF pre p] by (simp add: generate_def loop_calls split)
  have srt: "sorted (map priority (pre @ p # post))"
    using sort_key_priority_props(1) [of providers] by (simp only: split)
  have stab: "\<forall>k. filter (\<lambda>q. priority q = k) (pre @ p # post) = filter (\<lambda>q. priority q = k) providers"
    using sort_key_priority_props(2) [of _ providers] by (simp only: split) simp
  from split srt stab pre rd res tr show ?thesis by blast
qed

lemmas generate_eval = generate_def or_default_def registry_eval call_provider_def
  calculate_cost_def Let_def add_success_def add_failure_def log_request_def record_call_def
  success_row_def failure_row_def ok_response_def


lemma eval_misreporting:
  "fst (generate (example_env misreporting True) registry [] ''susan'' None None None False init_state) =
     Inr \<lparr>res_content = ''ok'', res_provider = ''groq'', res_model = ''llama-3.3-70b-versatile'',
          res_usage = \<lparr>prompt_tokens = 1, completion_tokens = 1, total_tokens = 5\<rparr>,
          res_cost = 59 / 20000000\<rparr>"
  by (simp add: generate_eval misreporting_def)

text \<open>
  Claim C3, as stated, fails: the usage is passed through as the provider reports it. With
  a provider reporting 1 prompt token, 1 completion token and a total of 5, the returned
  usage has a total different from prompt plus completion.
\<close>

theorem usage_total_counterexample:
  "total_tokens (res_usage (projr (fst (generate (example_env misreporting True) registry []
       ''susan'' None None None False init_state))))
   \<noteq> prompt_tokens (res_usage (projr (fst (generate (example_env misreporting True) registry []
       ''susan'' None None None False init_state))))
     + completion_tokens (res_usage (projr (fst (generate (example_env misreporting True) registry []
       ''susan'' None None None False init_state))))"
  by (simp add: eval_misreporting)

text \<open>
  Claim C5 at a failing input. The caller passes a temperature of 0 and a max-tokens of 0;
  \<open>temperature or settings.AI_TEMPERATURE\<close> treats the zero as absent, so the call that
  leaves \<open>generate\<close> carries the defaults 0.7 and 2048 and not the caller's values.
\<close>

theorem generate_zero_temperature_uses_default:
  "calls (snd (generate (example_env all_up True) registry [] ''susan'' None (Some 0) (Some 0)
                 False init_state)) =
     [\<lparr>call_provider_name = ''groq'', call_model = ''llama-3.3-70b-versatile'',
       call_temperature = 7 / 10, call_max_tokens = 2048\<rparr>]"
  by (simp add: generate_eval all_up_def)


lemma loop_some_success:
  assumes "\<exists>p\<in>set ps. succeeds E msgs ai_type temp mt stream p"
  shows "\<exists>pre p post rd. ps = pre @ p # post
           \<and> (\<forall>q\<in>set pre. \<not> succeeds E msgs ai_type temp mt stream q)
           \<and> attempt E msgs ai_type temp mt stream p = Some (Inr rd)
           \<and> fst (generate_loop E msgs ai_type user_id temp mt stream ps errors s) =
                Inr (completion_of ai_type p rd)"
proof -
  obtain pre p post where split: "ps = pre @ p # post"
    and p: "succeeds E msgs ai_type temp mt stream p"
    and pre: "\<forall>q\<in>set pre. \<not> succeeds E msgs ai_type temp mt stream q"
    using split_list_first_prop [OF assms] by blast
  from p obtain rd where rd: "attempt E msgs ai_type temp mt stream p = Some (Inr rd)"
    by (auto simp: succeeds_def split: option.splits sum.splits)
  from loop_first_success [OF pre rd] split pre rd show ?thesis by blast
qed

theorem generate_first_success_witness:
  "(\<exists>p\<in>set registry.
      succeeds (example_env groq_down True) [] ''susan''
        (or_default None (AI_TEMPERATURE (example_env groq_down True)))
        (or_default None (AI_MAX_TOKENS (example_env groq_down True))) False p)
   \<and> (\<exists>p rd. fst (generate (example_env groq_down True) registry [] ''susan'' None None None
                     False init_state) = Inr (completion_of ''susan'' p rd))"
proof -
  have "succeeds (example_env groq_down True) [] ''susan''
          (or_default None (AI_TEMPERATURE (example_env groq_down True)))
          (or_default None (AI_MAX_TOKENS (example_env groq_down True))) False together"
    by (simp add: succeeds_def attempt_def call_provider_def registry_eval groq_down_def)
  then have h: "\<exists>p\<in>set registry.
      succeeds (example_env groq_down True) [] ''susan''
        (or_default None (AI_TEMPERATURE (example_env groq_down True)))
        (or_default None (AI_MAX_TOKENS (example_env groq_down True))) False p"
    by (auto simp: registry_def)
  from generate_first_success [OF h, of None "init_state"] h show ?thesis by blast
qed



lemma call_of_name [simp]: "call_provider_name (call_of ai_type temp mt p) = name p"
  by (simp add: call_of_def)

lemma call_of_max_tokens [simp]:
  "call_max_tokens (call_of ai_type temp mt p) = min mt (max_tokens p)"
  by (simp add: call_of_def)

lemma count_calls_of:
  "length (filter (\<lambda>c. call_provider_name c = n) (map (call_of ai_type temp mt) ps)) =
     length (filter (\<lambda>p. name p = n) ps)"
  by (induction ps) simp_all


text \<open>
  Claim C3 (as amended). A result returned by \<open>generate\<close> comes from a provider of the
  registry whose call succeeded; its usage is the usage that provider reported, unchanged,
  and its cost is the reported total divided by 1000 and multiplied by that provider's rate,
  with no rounding step. The total equals prompt plus completion exactly when the provider
  reported it so.
\<close>

theorem generate_cost_and_usage:
  assumes "fst (generate E providers msgs ai_type user_id temperature max_toks stream s) = Inr c"
  shows "\<exists>p rd. p \<in> set providers
           \<and> attempt E msgs ai_type (or_default temperature (AI_TEMPERATURE E))
                (or_default max_toks (AI_MAX_TOKENS E)) stream p = Some (Inr rd)
           \<and> res_provider c = name p
           \<and> res_usage c = usage rd
           \<and> res_cost c = (of_int (total_tokens (res_usage c)) / 1000) * cost_per_1k_tokens p
           \<and> (total_tokens (res_usage c) = prompt_tokens (res_usage c) + completion_tokens (res_usage c)
                \<longleftrightarrow> total_tokens (usage rd) = prompt_tokens (usage rd) + completion_tokens (usage rd))"
proof -
  let ?T = "or_default temperature (AI_TEMPERATURE E)"
  let ?M = "or_default max_toks (AI_MAX_TOKENS E)"
  let ?ord = "sort_key priority providers"
  have some: "\<exists>p\<in>set ?ord. succeeds E msgs ai_type ?T ?M stream p"
  proof (rule ccontr)
    assume "\<not> (\<exists>p\<in>set ?ord. succeeds E msgs ai_type ?T ?M stream p)"
    then have "\<forall>p\<in>set ?ord. \<not> succeeds E msgs ai_type ?T ?M stream p" by blast
    from loop_exhausted [OF this, of user_id "[]" s] assms show False
      by (simp add: generate_def)
  qed
  from loop_some_success [OF some, of user_id "[]" s]
  obtain pre p post rd where split: "?ord = pre @ p # post"
    and rd: "attempt E msgs ai_type ?T ?M stream p = Some (Inr rd)"
    and res: "fst (generate_loop E msgs ai_type user_id ?T ?M stream ?ord [] s) =
                Inr (completion_of ai_type p rd)"
    by blast
  have "p \<in> set ?ord" by (simp only: split) simp
  then have mem: "p \<in> set providers" by simp
  from res assms have c: "c = completion_of ai_type p rd"
    by (simp add: generate_def)
  have "res_provider c = name p" "res_usage c = usage rd"
    "res_cost c = (of_int (total_tokens (res_usage c)) / 1000) * cost_per_1k_tokens p"
    by (simp_all add: c completion_of_def calculate_cost_def)
  with mem rd show ?thesis by auto
qed

theorem generate_cost_and_usage_witness:
  "fst (generate (example_env misreporting True) registry [] ''susan'' None None None False init_state) =
     Inr \<lparr>res_content = ''ok'', res_provider = ''groq'', res_model = ''llama-3.3-70b-versatile'',
          res_usage = \<lparr>prompt_tokens = 1, completion_tokens = 1, total_tokens = 5\<rparr>,
          res_cost = 59 / 20000000\<rparr>
   \<and> (\<exists>p\<in>set registry. name p = ''groq''
          \<and> (59 / 20000000 :: rat) = (of_int 5 / 1000) * cost_per_1k_tokens p)"
proof -
  have h: "fst (generate (example_env misreporting True) registry [] ''susan'' None None None False
                  init_state) =
     Inr \<lparr>res_content = ''ok'', res_provider = ''groq'', res_model = ''llama-3.3-70b-versatile'',
          res_usage = \<lparr>prompt_tokens = 1, completion_tokens = 1, total_tokens = 5\<rparr>,
          res_cost = 59 / 20000000\<rparr>"
    by (rule eval_misreporting)
  from generate_cost_and_usage [OF h] h show ?thesis by auto
qed



text \<open>
  The cap on max-tokens: whatever the caller asks for, every call that leaves \<open>generate\<close>
  carries the minimum of the effective max-tokens and the ceiling of the provider called.
\<close>

lemma generate_calls_capped:
  "\<exists>ps. set ps \<subseteq> set providers
       \<and> calls (snd (generate E providers msgs ai_type user_id temperature max_toks stream s)) =
           calls s @ map (call_of ai_type (or_default temperature (AI_TEMPERATURE E))
                            (or_default max_toks (AI_MAX_TOKENS E))) ps
       \<and> (\<forall>p\<in>set ps. call_max_tokens (call_of ai_type (or_default temperature (AI_TEMPERATURE E))
                            (or_default max_toks (AI_MAX_TOKENS E)) p)
                       = min (or_default max_toks (AI_MAX_TOKENS E)) (max_tokens p))"
  apply (rule exI [of _ "tried E msgs ai_type (or_default temperature (AI_TEMPERATURE E))
                            (or_default max_toks (AI_MAX_TOKENS E)) stream (sort_key priority providers)"])
  using tried_subset [of E msgs ai_type "or_default temperature (AI_TEMPERATURE E)"
      "or_default max_toks (AI_MAX_TOKENS E)" stream "sort_key priority providers"]
  by (auto simp: generate_def loop_calls)

lemma route_empty: "route [] (Some empty_context) = Inr (''susan'', DefaultRouting, 1/2)"
  by code_simp

lemma final_scores_empty: "final_scores [] None = Some (0, 0)"
  by code_simp

lemma route_roleplay:
  "route ''let's roleplay this'' None = Inr (''agnes'', TrainingIntent (3/2), 15/16)"
  by code_simp

lemma title_agnes: "title ''agnes'' = ''Agnes''"
  by code_simp

lemma fold_score_ge:
  "\<forall>(k, w)\<in>set kws. 0 \<le> w \<Longrightarrow> (acc::rat) \<le>
     fold (\<lambda>(keyword, weight) score. if str_in keyword m then score + weight else score) kws acc"
proof (induction kws arbitrary: acc)
  case Nil
  show ?case by simp
next
  case (Cons kw kws)
  obtain k w where kw: "kw = (k, w)" by (cases kw)
  have w: "0 \<le> w" using Cons.prems kw by simp
  have rest: "\<forall>(k, w)\<in>set kws. 0 \<le> w" using Cons.prems by simp
  show ?case
  proof (cases "str_in k m")
    case True
    have "acc \<le> acc + w" using w by simp
    also have "\<dots> \<le> fold (\<lambda>(keyword, weight) score. if str_in keyword m then score + weight else score)
                       kws (acc + w)"
      by (rule Cons.IH [OF rest])
    finally show ?thesis using True kw by simp
  next
    case False
    then show ?thesis using Cons.IH [OF rest, of acc] kw by simp
  qed
qed

lemma keyword_score_nonneg:
  "\<forall>(k, w)\<in>set kws. 0 \<le> w \<Longrightarrow> 0 \<le> calculate_keyword_score m kws"
  unfolding calculate_keyword_score_def by (rule fold_score_ge)

lemma training_weights: "\<forall>(k, w)\<in>set TRAINING_KEYWORDS. 0 \<le> w"
  by (simp add: TRAINING_KEYWORDS_def)

lemma susan_weights: "\<forall>(k, w)\<in>set SUSAN_KEYWORDS. 0 \<le> w"
  by (simp add: SUSAN_KEYWORDS_def)

lemma intent_scores_nonneg:
  "intent_scores m ctx = (a, b) \<Longrightarrow> 0 \<le> a \<and> 0 \<le> b"
  using keyword_score_nonneg [OF training_weights, of m]
        keyword_score_nonneg [OF susan_weights, of m]
  by (auto simp: intent_scores_def Let_def split: if_splits)

lemma decide_value:
  assumes "0 \<le> a" "0 \<le> b"
  shows "decide a b =
           Inr (if a > b then (''agnes'', TrainingIntent a, min (a / (a + b + 1/10)) 1)
                else if b > a then (''susan'', TechnicalIntent b, min (b / (a + b + 1/10)) 1)
                else (''susan'', DefaultRouting, 1/2))"
proof -
  have "a + b + 1/10 \<noteq> 0" using assms by simp
  then show ?thesis by (simp add: decide_def py_div_def)
qed

lemma decide_tie: "decide a a = Inr (''susan'', DefaultRouting, 1/2)"
  by (simp add: decide_def)

lemma py_ge_number: "is_number v \<Longrightarrow> \<exists>b. py_ge v n = Inr b"
  by (cases v) simp_all

lemma py_ge_non_number: "\<not> is_number v \<Longrightarrow> py_ge v n = Inl TypeError"
  by (cases v) simp_all

lemma priority_rules_raises:
  assumes "compares_non_number message context_arg"
  shows "priority_rules (lower message)
           (case context_arg of None \<Rightarrow> empty_context | Some c \<Rightarrow> c) = Inl TypeError"
  using assms
  by (auto simp: compares_non_number_def priority_rules_def Let_def py_ge_non_number
           split: if_splits)

lemma priority_rules_returns:
  assumes "\<not> compares_non_number message context_arg"
  shows "\<exists>r. priority_rules (lower message)
           (case context_arg of None \<Rightarrow> empty_context | Some c \<Rightarrow> c) = Inr r"
proof -
  let ?ctx = "case context_arg of None \<Rightarrow> empty_context | Some c \<Rightarrow> c"
  let ?a = "dict_get_or ?ctx ''agnes_message_count'' (PyInt 0)"
  let ?s = "dict_get_or ?ctx ''susan_message_count'' (PyInt 0)"
  consider (early) "(str_in ''susan'' (lower message) \<and> \<not> str_in ''agnes'' (lower message))
                    \<or> (str_in ''agnes'' (lower message) \<and> \<not> str_in ''susan'' (lower message))
                    \<or> truthy (dict_get ?ctx ''active_training_scenario'')"
    | (agnes) "\<not> (str_in ''susan'' (lower message) \<and> \<not> str_in ''agnes'' (lower message))"
              "\<not> (str_in ''agnes'' (lower message) \<and> \<not> str_in ''susan'' (lower message))"
              "\<not> truthy (dict_get ?ctx ''active_training_scenario'')"
              "dict_get ?ctx ''last_ai'' = PyStr ''agnes''"
    | (susan) "\<not> (str_in ''susan'' (lower message) \<and> \<not> str_in ''agnes'' (lower message))"
              "\<not> (str_in ''agnes'' (lower message) \<and> \<not> str_in ''susan'' (lower message))"
              "\<not> truthy (dict_get ?ctx ''active_training_scenario'')"
              "dict_get ?ctx ''last_ai'' = PyStr ''susan''"
    | (other) "\<not> (str_in ''susan'' (lower message) \<and> \<not> str_in ''agnes'' (lower message))"
              "\<not> (str_in ''agnes'' (lower message) \<and> \<not> str_in ''susan'' (lower message))"
              "\<not> truthy (dict_get ?ctx ''active_training_scenario'')"
              "dict_get ?ctx ''last_ai'' \<noteq> PyStr ''agnes''"
              "dict_get ?ctx ''last_ai'' \<noteq> PyStr ''susan''"
    by blast
  then show ?thesis
  proof cases
    case early
    then show ?thesis by (auto simp: priority_rules_def)
  next
    case agnes
    then have "is_number ?a"
      using assms by (auto simp: compares_non_number_def Let_def)
    then obtain b where "py_ge ?a 3 = Inr b" using py_ge_number by blast
    then show ?thesis using agnes by (simp add: priority_rules_def Let_def)
  next
    case susan
    then have "is_number ?s"
      using assms by (auto simp: compares_non_number_def Let_def)
    then obtain b where "py_ge ?s 3 = Inr b" using py_ge_number by blast
    then show ?thesis using susan by (simp add: priority_rules_def Let_def)
  next
    case other
    then show ?thesis by (simp add: priority_rules_def)
  qed
qed

lemma route_raises:
  "compares_non_number message context_arg \<Longrightarrow> route message context_arg = Inl TypeError"
  using priority_rules_raises [of message context_arg] by (simp add: route_def)

lemma route_returns:
  assumes "\<not> compares_non_number message context_arg"
  shows "\<exists>r. route message context_arg = Inr r"
proof -
  let ?ctx = "case context_arg of None \<Rightarrow> empty_context | Some c \<Rightarrow> c"
  obtain x where x: "priority_rules (lower message) ?ctx = Inr x"
    using priority_rules_returns [OF assms] by blast
  show ?thesis
  proof (cases x)
    case (Some r)
    then have "route message context_arg = Inr r" using x by (simp add: route_def)
    then show ?thesis ..
  next
    case None
    obtain a b where ab: "intent_scores (lower message) ?ctx = (a, b)"
      by (cases "intent_scores (lower message) ?ctx")
    have nn: "0 \<le> a" "0 \<le> b" using intent_scores_nonneg [OF ab] by simp_all
    have "route message context_arg = decide a b"
      using None x ab by (simp add: route_def)
    then have "route message context_arg =
           Inr (if a > b then (''agnes'', TrainingIntent a, min (a / (a + b + 1/10)) 1)
                else if b > a then (''susan'', TechnicalIntent b, min (b / (a + b + 1/10)) 1)
                else (''susan'', DefaultRouting, 1/2))"
      by (simp only: decide_value [OF nn])
    then show ?thesis ..
  qed
qed

lemma numbers_never_compared_wrongly:
  "counts_are_numbers context_arg \<Longrightarrow> \<not> compares_non_number message context_arg"
  by (auto simp: counts_are_numbers_def compares_non_number_def Let_def split: if_splits)

lemma route_total_none: "\<exists>r. route message None = Inr r"
proof -
  have "counts_are_numbers None"
    by (simp add: counts_are_numbers_def empty_context_def dict_get_or_def)
  then show ?thesis
    using numbers_never_compared_wrongly route_returns by blast
qed

lemma route_count_is_none: "route ''hello'' (Some count_is_none) = Inl TypeError"
  by code_simp

lemma route_count_is_text: "route ''hello'' (Some count_is_text) = Inl TypeError"
  by code_simp

lemma compares_count_is_text: "compares_non_number ''hello'' (Some count_is_text)"
  by code_simp

lemma numbers_five_turns: "counts_are_numbers (Some five_turns_with_agnes)"
  by code_simp

lemma route_five_turns:
  "route ''hello'' (Some five_turns_with_agnes) = Inr (''agnes'', TrainingContinuity (PyInt 5), 9/10)"
  by code_simp

text \<open>
  Claim C7, as stated, fails: the context can hold a count that is not a number, and the
  comparison \<open>agnes_streak >= 3\<close> then raises. With the message "hello" and the context
  \<open>{'last_ai': 'agnes', 'agnes_message_count': None}\<close>, \<open>route\<close> raises \<open>TypeError\<close>; so it does
  with \<open>{'last_ai': 'susan', 'susan_message_count': '5'}\<close>.
\<close>

theorem route_non_number_count_counterexample:
  "route ''hello'' (Some count_is_none) = Inl TypeError
   \<and> route ''hello'' (Some count_is_text) = Inl TypeError"
  using route_count_is_none route_count_is_text by simp

text \<open>
  Claim C7, amended. \<open>route\<close> raises exactly when it compares a count that is not a number
  with 3 (no explicit mention and no active training scenario has decided first, and the
  count of the persona of the last turn is present and is not a number), and what it raises
  then is \<open>TypeError\<close>; in every other case it returns a result, the one division it performs
  never having a zero divisor. So it never raises for any message when the counts present in
  the context are numbers, and never when there is no context. On the empty message with an
  empty context it returns the default persona susan with confidence 1/2; and whenever the
  two final scores tie, both zero included, it returns that same default.
\<close>

theorem route_raises_only_on_non_number_count:
  "(compares_non_number message context_arg \<longrightarrow> route message context_arg = Inl TypeError)
   \<and> (\<not> compares_non_number message context_arg \<longrightarrow> (\<exists>r. route message context_arg = Inr r))
   \<and> (counts_are_numbers context_arg \<longrightarrow> (\<exists>r. route message context_arg = Inr r))
   \<and> (\<exists>r. route message None = Inr r)
   \<and> route [] (Some empty_context) = Inr (''susan'', DefaultRouting, 1/2)
   \<and> (\<forall>a. final_scores message context_arg = Some (a, a) \<longrightarrow>
            route message context_arg = Inr (''susan'', DefaultRouting, 1/2))"
proof (intro conjI allI impI)
  assume "compares_non_number message context_arg"
  then show "route message context_arg = Inl TypeError" by (rule route_raises)
next
  assume "\<not> compares_non_number message context_arg"
  then show "\<exists>r. route message context_arg = Inr r" by (rule route_returns)
next
  assume "counts_are_numbers context_arg"
  then have "\<not> compares_non_number message context_arg"
    by (rule numbers_never_compared_wrongly)
  then show "\<exists>r. route message context_arg = Inr r" by (rule route_returns)
next
  show "\<exists>r. route message None = Inr r" by (rule route_total_none)
next
  show "route [] (Some empty_context) = Inr (''susan'', DefaultRouting, 1/2)"
    by (rule route_empty)
next
  fix a
  assume "final_scores message context_arg = Some (a, a)"
  then show "route message context_arg = Inr (''susan'', DefaultRouting, 1/2)"
    by (auto simp: final_scores_def route_def Let_def decide_tie
             split: option.splits sum.splits)
qed

theorem route_raises_only_on_non_number_count_witness:
  "compares_non_number ''hello'' (Some count_is_text)
   \<and> route ''hello'' (Some count_is_text) = Inl TypeError
   \<and> counts_are_numbers (Some five_turns_with_agnes)
   \<and> \<not> compares_non_number ''hello'' (Some five_turns_with_agnes)
   \<and> route ''hello'' (Some five_turns_with_agnes) =
       Inr (''agnes'', TrainingContinuity (PyInt 5), 9/10)
   \<and> final_scores [] None = Some (0, 0)
   \<and> route [] None = Inr (''susan'', DefaultRouting, 1/2)"
  using route_raises_only_on_non_number_count [of "''hello''" "Some count_is_text"]
        route_raises_only_on_non_number_count [of "''hello''" "Some five_turns_with_agnes"]
        route_raises_only_on_non_number_count [of "[]" None]
        compares_count_is_text numbers_five_turns route_five_turns final_scores_empty
        numbers_never_compared_wrongly [OF numbers_five_turns, of "''hello''"]
  by simp

lemma handoff_roleplay:
  "suggest_handoff ''susan'' ''let's roleplay this'' 5 =
     Inr (Some \<lparr>suggested_ai = ''agnes'', handoff_reason = TrainingIntent (3/2),
                 handoff_confidence = 15/16,
                 handoff_message = ''It sounds like you'd like to practice this! Let me connect you with Agnes for some roleplay training. She's great at this!''\<rparr>)"
  by (simp add: suggest_handoff_def route_roleplay generate_handoff_message_def)

text \<open>
  Claim C8. Below three turns \<open>suggest_handoff\<close> returns no suggestion. From three turns on
  it routes the message and returns a suggestion, naming the routed persona with the
  transition message, exactly when the routed persona differs from the current one and the
  routed confidence is at least 0.8. For susan and the message "let's roleplay this": no
  suggestion at turn count 1, and at turn count 5 a handoff to agnes with confidence 15/16.
\<close>

theorem suggest_handoff_rule:
  "(conversation_length < 3 \<longrightarrow>
      suggest_handoff current_ai message conversation_length = Inr None)
   \<and> (3 \<le> conversation_length \<longrightarrow>
        (\<exists>optimal_ai reason conf.
            route message None = Inr (optimal_ai, reason, conf)
          \<and> suggest_handoff current_ai message conversation_length =
              Inr (if optimal_ai \<noteq> current_ai \<and> 8/10 \<le> conf
                   then Some \<lparr>suggested_ai = optimal_ai, handoff_reason = reason,
                              handoff_confidence = conf,
                              handoff_message = generate_handoff_message current_ai optimal_ai\<rparr>
                   else None)))
   \<and> suggest_handoff ''susan'' ''let's roleplay this'' 1 = Inr None
   \<and> suggest_handoff ''susan'' ''let's roleplay this'' 5 =
       Inr (Some \<lparr>suggested_ai = ''agnes'', handoff_reason = TrainingIntent (3/2),
                   handoff_confidence = 15/16,
                   handoff_message = ''It sounds like you'd like to practice this! Let me connect you with Agnes for some roleplay training. She's great at this!''\<rparr>)
   \<and> (8/10 :: rat) \<le> 15/16"
proof (intro conjI impI)
  assume "conversation_length < 3"
  then show "suggest_handoff current_ai message conversation_length = Inr None"
    by (simp add: suggest_handoff_def)
next
  assume ge: "3 \<le> conversation_length"
  obtain r where r: "route message None = Inr r"
    using route_total_none [of message] by blast
  obtain optimal_ai reason conf where t: "r = (optimal_ai, reason, conf)"
    by (cases r)
  have "suggest_handoff current_ai message conversation_length =
              Inr (if optimal_ai \<noteq> current_ai \<and> 8/10 \<le> conf
                   then Some \<lparr>suggested_ai = optimal_ai, handoff_reason = reason,
                              handoff_confidence = conf,
                              handoff_message = generate_handoff_message current_ai optimal_ai\<rparr>
                   else None)"
    using ge r t by (simp add: suggest_handoff_def)
  with r t show "\<exists>optimal_ai reason conf.
            route message None = Inr (optimal_ai, reason, conf)
          \<and> suggest_handoff current_ai message conversation_length =
              Inr (if optimal_ai \<noteq> current_ai \<and> 8/10 \<le> conf
                   then Some \<lparr>suggested_ai = optimal_ai, handoff_reason = reason,
                              handoff_confidence = conf,
                              handoff_message = generate_handoff_message current_ai optimal_ai\<rparr>
                   else None)"
    by blast
next
  show "suggest_handoff ''susan'' ''let's roleplay this'' 1 = Inr None"
    by (simp add: suggest_handoff_def)
next
  show "suggest_handoff ''susan'' ''let's roleplay this'' 5 =
       Inr (Some \<lparr>suggested_ai = ''agnes'', handoff_reason = TrainingIntent (3/2),
                   handoff_confidence = 15/16,
                   handoff_message = ''It sounds like you'd like to practice this! Let me connect you with Agnes for some roleplay training. She's great at this!''\<rparr>)"
    by (rule handoff_roleplay)
next
  show "(8/10 :: rat) \<le> 15/16" by simp
qed

theorem suggest_handoff_rule_witness:
  "(2::int) < 3 \<and> suggest_handoff ''agnes'' ''let's roleplay this'' 2 = Inr None
   \<and> (3::int) \<le> 4 \<and> suggest_handoff ''agnes'' ''let's roleplay this'' 4 = Inr None"
  using suggest_handoff_rule [of 2 "''agnes''" "''let's roleplay this''"]
        suggest_handoff_rule [of 4 "''agnes''" "''let's roleplay this''"]
        route_roleplay
  by simp

lemma route_without_context: "route message None = route_message_only message"
  by (simp add: route_def route_message_only_def priority_rules_def intent_scores_def
        empty_context_def dict_get_def dict_get_or_def Let_def)

lemma route_empty_context: "route message (Some empty_context) = route message None"
  by (simp add: route_def)

lemma decide_reasons:
  "decide a b = Inr (ai, r, c) \<Longrightarrow> r = TrainingIntent a \<or> r = TechnicalIntent b \<or> r = DefaultRouting"
  by (auto simp: decide_def py_div_def split: if_splits)

lemma route_message_only_reasons:
  assumes "route_message_only message = Inr (ai, r, c)"
  shows "r \<noteq> ActiveTrainingScenario \<and> (\<forall>k. r \<noteq> TrainingContinuity k \<and> r \<noteq> TechnicalContinuity k)"
proof -
  have "r = ExplicitSusan \<or> r = ExplicitAgnes \<or> (\<exists>a. r = TrainingIntent a)
          \<or> (\<exists>b. r = TechnicalIntent b) \<or> r = DefaultRouting"
    using assms decide_reasons
    by (fastforce simp: route_message_only_def Let_def split: if_splits)
  then show ?thesis by auto
qed

text \<open>
  Claim C10. \<open>suggest_handoff\<close> calls \<open>route\<close> without a context, which is routing with the
  empty context and equals routing from the message alone (explicit mentions, then the
  keyword and pattern scores). So its result is a function of the current persona, the
  message and the turn count only, and the reason of a suggestion is never the
  active-session rule nor a continuity rule.
\<close>

theorem suggest_handoff_ignores_context:
  "route message None = route_message_only message
   \<and> route message (Some empty_context) = route message None
   \<and> suggest_handoff current_ai message conversation_length =
       (if conversation_length < 3 then Inr None
        else case route_message_only message of
               Inl e \<Rightarrow> Inl e
             | Inr (optimal_ai, reason, conf) \<Rightarrow>
                 if optimal_ai \<noteq> current_ai \<and> conf \<ge> 8/10
                 then Inr (Some \<lparr>suggested_ai = optimal_ai, handoff_reason = reason,
                                 handoff_confidence = conf,
                                 handoff_message = generate_handoff_message current_ai optimal_ai\<rparr>)
                 else Inr None)
   \<and> (\<forall>h. suggest_handoff current_ai message conversation_length = Inr (Some h) \<longrightarrow>
          handoff_reason h \<noteq> ActiveTrainingScenario
        \<and> (\<forall>k. handoff_reason h \<noteq> TrainingContinuity k \<and> handoff_reason h \<noteq> TechnicalContinuity k))"
proof (intro conjI allI impI)
  show "route message None = route_message_only message"
    by (rule route_without_context)
next
  show "route message (Some empty_context) = route message None"
    by (rule route_empty_context)
next
  show "suggest_handoff current_ai message conversation_length =
       (if conversation_length < 3 then Inr None
        else case route_message_only message of
               Inl e \<Rightarrow> Inl e
             | Inr (optimal_ai, reason, conf) \<Rightarrow>
                 if optimal_ai \<noteq> current_ai \<and> conf \<ge> 8/10
                 then Inr (Some \<lparr>suggested_ai = optimal_ai, handoff_reason = reason,
                                 handoff_confidence = conf,
                                 handoff_message = generate_handoff_message current_ai optimal_ai\<rparr>)
                 else Inr None)"
    by (simp only: suggest_handoff_def route_without_context)
next
  fix h
  assume a: "suggest_handoff current_ai message conversation_length = Inr (Some h)"
  then obtain ai r c where rm: "route_message_only message = Inr (ai, r, c)"
    and h: "handoff_reason h = r"
    by (auto simp: suggest_handoff_def route_without_context split: if_splits sum.splits)
  from route_message_only_reasons [OF rm] h
  show "handoff_reason h \<noteq> ActiveTrainingScenario" by simp
  from route_message_only_reasons [OF rm] h
  show "\<And>k. handoff_reason h \<noteq> TrainingContinuity k" by simp
  from route_message_only_reasons [OF rm] h
  show "\<And>k. handoff_reason h \<noteq> TechnicalContinuity k" by simp
qed

theorem suggest_handoff_ignores_context_witness:
  "suggest_handoff ''susan'' ''let's roleplay this'' 5 =
     Inr (Some \<lparr>suggested_ai = ''agnes'', handoff_reason = TrainingIntent (3/2),
                 handoff_confidence = 15/16,
                 handoff_message = ''It sounds like you'd like to practice this! Let me connect you with Agnes for some roleplay training. She's great at this!''\<rparr>)
   \<and> TrainingIntent (3/2) \<noteq> ActiveTrainingScenario
   \<and> route_message_only ''let's roleplay this'' = Inr (''agnes'', TrainingIntent (3/2), 15/16)"
  using suggest_handoff_ignores_context [of "''let's roleplay this''" "''susan''" 5]
        handoff_roleplay route_roleplay
  by simp

lemma fold_score_sum:
  "fold (\<lambda>(keyword, weight) score. if str_in keyword m then score + weight else score) kws acc =
     (acc::rat) + sum_list (map snd (filter (\<lambda>(k, w). str_in k m) kws))"
  by (induction kws arbitrary: acc) (auto simp: algebra_simps)

text \<open>
  What the scoring step computes: the sum of the weights of the table's phrases that occur,
  as they are written in the table, in the lowered message.
\<close>

lemma keyword_score_sum:
  "calculate_keyword_score m kws = sum_list (map snd (filter (\<lambda>(k, w). str_in k m) kws))"
  by (simp add: calculate_keyword_score_def fold_score_sum)

lemma score_ibc_irc: "calculate_keyword_score (lower ''IBC and IRC'') SUSAN_KEYWORDS = 0"
  by code_simp

lemma route_script_ibc_irc:
  "route ''script for IBC and IRC'' (Some empty_context) = Inr (''agnes'', TrainingIntent (7/10), 7/8)"
  by code_simp

text \<open>
  Claim C4 at a failing input. The message is lowered before the lookup and the table's
  keys are not, so the keys written with capitals (GAF, Owens Corning, CertainTeed, IBC,
  IRC, NFPA, iTel) can never be found: a message naming IBC and IRC scores 0 for susan
  where the claim gives 2.0, and "script for IBC and IRC" is routed to agnes on the
  strength of the single training keyword.
\<close>

theorem keyword_table_case_mismatch:
  "calculate_keyword_score (lower ''IBC and IRC'') SUSAN_KEYWORDS = 0
   \<and> route ''script for IBC and IRC'' (Some empty_context) =
       Inr (''agnes'', TrainingIntent (7/10), 7/8)"
  using score_ibc_irc route_script_ibc_irc by simp

end
